theory Spec2Isabelle
  imports Complex_Main
begin

section \<open>The flying-item scene\<close>

text \<open>
  The repository holds two versions of the scene component \<^verbatim>\<open>TakaScene\<close>, stored one
  after the other in \<^verbatim>\<open>src/unnamed/part_000\<close>. Both declare the same names
  (\<^verbatim>\<open>COMPONENT_TYPES\<close>, \<^verbatim>\<open>FlyingItem\<close>, \<^verbatim>\<open>spawnItem\<close>, \<^verbatim>\<open>ItemAnimator\<close>).

  \<^item> Lines 183-390: the version with an explicit blend factor, spawn interval 1.8 and
    eviction threshold 8. Its definitions keep the source's names.
  \<^item> Lines 1-181: the version that renders GLTF models, with spawn interval 1.2,
    eviction threshold 12 and a per-item \<^verbatim>\<open>scaleVar\<close>. Its definitions carry the suffix
    \<open>_gltf\<close>.

  JavaScript numbers are modelled as mathematical reals (ids and array lengths as
  naturals): rounding of binary64 arithmetic is not part of the model. Each call of
  \<^verbatim>\<open>Math.random()\<close> inside one \<^verbatim>\<open>spawnItem\<close> is an input: \<open>rnd k\<close> is the value
  returned by the \<open>k\<close>-th call (counting from 0, in evaluation order). The updater
  passed to \<^verbatim>\<open>setItems\<close> is applied once per call of \<^verbatim>\<open>spawnItem\<close>.
\<close>

subsection \<open>Data\<close>

text \<open>An object literal \<^verbatim>\<open>{ x, y, z }\<close>, also used for \<^verbatim>\<open>THREE.Vector3\<close> and Euler angles.\<close>

record xyz =
  x_of :: real
  y_of :: real
  z_of :: real

text \<open>
  Reading a JavaScript array at an index: \<^verbatim>\<open>undefined\<close> (here \<open>None\<close>) out of range.
\<close>

definition js_index :: "'a list \<Rightarrow> int \<Rightarrow> 'a option" where
  "js_index xs i = (if 0 \<le> i \<and> nat i < length xs then Some (xs ! nat i) else None)"

text \<open>Lines 197-208. The type tags are string literals.\<close>

definition COMPONENT_TYPES :: "string list" where
  "COMPONENT_TYPES = [''gpu'', ''ram'', ''motherboard'']"

record FlyingItem =
  item_id :: nat
  initialY :: real
  initialZ :: real
  speed :: real
  targetComponent :: "string option"
  rotationSpeed :: xyz

text \<open>
  The state of \<^verbatim>\<open>TakaScene\<close> (lines 215-217 and 28-30): the \<^verbatim>\<open>useState\<close> list and the
  two refs. Both versions start from the empty list, id 0 and spawn time 0.
\<close>

record 'item scene =
  items :: "'item list"
  nextId :: nat
  lastSpawnTime :: real

definition initial_scene :: "'item scene" where
  "initial_scene = \<lparr>items = [], nextId = 0, lastSpawnTime = 0\<rparr>"

subsection \<open>The spawner (lines 219-264)\<close>

text \<open>
  \<^verbatim>\<open>Array.prototype.shift\<close> removes the first element and does nothing on an empty
  array.
\<close>

definition shift :: "'a list \<Rightarrow> 'a list" where
  "shift xs = (case xs of [] \<Rightarrow> [] | _ # rest \<Rightarrow> rest)"

text \<open>
  \<^verbatim>\<open>spawnItem\<close>, lines 239-264: the updater passed to \<^verbatim>\<open>setItems\<close>, applied to the
  current list, together with the post-increment of \<^verbatim>\<open>nextId.current\<close>.
\<close>

definition spawnItem :: "(nat \<Rightarrow> real) \<Rightarrow> FlyingItem scene \<Rightarrow> FlyingItem scene" where
  "spawnItem rnd st =
     (let active = filter (\<lambda>item. True) (items st);
          active = (if length active > 8 then shift active else active)
      in st\<lparr>items := active @
               [\<lparr>item_id = nextId st,
                 initialY = (rnd 0 - 0.5) * 3,
                 initialZ = (rnd 1 - 0.5) * 3,
                 speed = 1.5 + rnd 2 * 0.5,
                 targetComponent =
                   js_index COMPONENT_TYPES \<lfloor>rnd 3 * real (length COMPONENT_TYPES)\<rfloor>,
                 rotationSpeed =
                   \<lparr>x_of = (rnd 4 - 0.5) * 0.02,
                    y_of = (rnd 5 - 0.5) * 0.02,
                    z_of = (rnd 6 - 0.5) * 0.02\<rparr>\<rparr>],
             nextId := nextId st + 1\<rparr>)"

text \<open>
  The per-frame callback of \<^verbatim>\<open>TakaScene\<close>, lines 219-236, at clock value
  \<open>elapsedTime\<close>.
\<close>

definition TakaScene_useFrame ::
  "(nat \<Rightarrow> real) \<Rightarrow> real \<Rightarrow> FlyingItem scene \<Rightarrow> FlyingItem scene" where
  "TakaScene_useFrame rnd elapsedTime st =
     (if elapsedTime - lastSpawnTime st > 1.8
      then (spawnItem rnd st)\<lparr>lastSpawnTime := elapsedTime\<rparr>
      else st)"

text \<open>A run of spawns, one random source per spawn, oldest first.\<close>

fun spawn_all :: "(nat \<Rightarrow> real) list \<Rightarrow> FlyingItem scene \<Rightarrow> FlyingItem scene" where
  "spawn_all [] st = st"
| "spawn_all (rnd # rnds) st = spawn_all rnds (spawnItem rnd st)"

subsection \<open>The per-item animator (lines 312-390)\<close>

text \<open>
  What the animator touches of the rendered tree: a \<^verbatim>\<open>THREE.Group\<close> with position,
  rotation and children, each child with a scale and a visibility flag. Only
  \<^verbatim>\<open>scale.setScalar\<close> is ever applied, so a child's scale is one number.
\<close>

record Object3D =
  obj_scale :: real
  visible :: bool

record Group =
  position :: xyz
  rotation :: xyz
  children :: "Object3D list"

text \<open>
  The two refs of \<^verbatim>\<open>ItemAnimator\<close> (lines 313-314): \<open>groupRef = None\<close> is a render handle
  that is \<^verbatim>\<open>null\<close> (not mounted yet), \<open>startTime = None\<close> is \<^verbatim>\<open>startTime.current === null\<close>.
\<close>

record animator =
  groupRef :: "Group option"
  startTime :: "real option"

text \<open>The tree returned by \<^verbatim>\<open>ItemAnimator\<close> (lines 375-388), as the ref sees it once mounted.\<close>

definition mounted_group :: Group where
  "mounted_group =
     \<lparr>position = \<lparr>x_of = 0, y_of = 0, z_of = 0\<rparr>,
      rotation = \<lparr>x_of = 0, y_of = 0, z_of = 0\<rparr>,
      children = [\<lparr>obj_scale = 1, visible = True\<rparr>, \<lparr>obj_scale = 0.001, visible = True\<rparr>]\<rparr>"

definition beamCenter :: real where
  "beamCenter = 0"

definition transitionWidth :: real where
  "transitionWidth = 1.0"

text \<open>The local variable \<^verbatim>\<open>blend\<close> as a function of the position \<^verbatim>\<open>x\<close> (lines 344-352).\<close>

definition blend :: "real \<Rightarrow> real" where
  "blend x =
     (if x < beamCenter - transitionWidth / 2 then 0
      else if x > beamCenter + transitionWidth / 2 then 1
      else (x - (beamCenter - transitionWidth / 2)) / transitionWidth)"

text \<open>
  The per-frame callback of \<^verbatim>\<open>ItemAnimator\<close>, lines 316-373, at clock value
  \<open>elapsedTime\<close>. The early \<^verbatim>\<open>return\<close> of line 321 is the \<open>None\<close> branch; the guard
  \<^verbatim>\<open>takaGroup && compGroup\<close> of line 362 fails when the group has fewer than two
  children.
\<close>

definition ItemAnimator_useFrame :: "FlyingItem \<Rightarrow> real \<Rightarrow> animator \<Rightarrow> animator" where
  "ItemAnimator_useFrame data elapsedTime st =
     (let start = (case startTime st of None \<Rightarrow> elapsedTime | Some s \<Rightarrow> s);
          st = st\<lparr>startTime := Some start\<rparr>
      in case groupRef st of
           None \<Rightarrow> st
         | Some g \<Rightarrow>
             let timeAlive = elapsedTime - start;
                 x = - 9 + timeAlive * speed data;
                 g = g\<lparr>position :=
                         \<lparr>x_of = x,
                          y_of = initialY data + sin (timeAlive + real (item_id data)) * 0.5,
                          z_of = initialZ data
                                 + cos (timeAlive * 0.8 + real (item_id data)) * 0.5\<rparr>,
                       rotation :=
                         \<lparr>x_of = x_of (rotation g) + x_of (rotationSpeed data),
                          y_of = y_of (rotation g) + y_of (rotationSpeed data),
                          z_of = z_of (rotation g) + z_of (rotationSpeed data)\<rparr>\<rparr>;
                 blend = blend x
             in (case children g of
                   takaGroup # compGroup # rest \<Rightarrow>
                     let takaScale = 1 - blend;
                         compScale = blend
                     in st\<lparr>groupRef := Some (g\<lparr>children :=
                           takaGroup\<lparr>obj_scale := (if takaScale > 0 then takaScale else 0.001)\<rparr>
                           # compGroup\<lparr>obj_scale := (if compScale > 0 then compScale else 0.001)\<rparr>
                           # rest\<rparr>)\<rparr>
                 | _ \<Rightarrow> st\<lparr>groupRef := Some g\<rparr>))"

text \<open>The scale of the value-token child (child 0) and of the component child (child 1).\<close>

definition takaGroup_scale :: "animator \<Rightarrow> real option" where
  "takaGroup_scale st =
     (case groupRef st of None \<Rightarrow> None
      | Some g \<Rightarrow> map_option obj_scale (js_index (children g) 0))"

definition compGroup_scale :: "animator \<Rightarrow> real option" where
  "compGroup_scale st =
     (case groupRef st of None \<Rightarrow> None
      | Some g \<Rightarrow> map_option obj_scale (js_index (children g) 1))"

section \<open>The scene with GLTF models (lines 1-181)\<close>

definition COMPONENT_TYPES_gltf :: "string list" where
  "COMPONENT_TYPES_gltf = [''taka'', ''taka'', ''gpu'', ''ram'', ''cpu'', ''motherboard'']"

record FlyingItem_gltf =
  item_id_gltf :: nat
  initialY_gltf :: real
  initialZ_gltf :: real
  speed_gltf :: real
  type_gltf :: "string option"
  rotationSpeed_gltf :: xyz
  scaleVar :: real

text \<open>\<^verbatim>\<open>spawnItem\<close>, lines 40-65.\<close>

definition spawnItem_gltf ::
  "(nat \<Rightarrow> real) \<Rightarrow> FlyingItem_gltf scene \<Rightarrow> FlyingItem_gltf scene" where
  "spawnItem_gltf rnd st =
     (let active = filter (\<lambda>item. True) (items st);
          active = (if length active > 12 then shift active else active)
      in st\<lparr>items := active @
               [\<lparr>item_id_gltf = nextId st,
                 initialY_gltf = (rnd 0 - 0.5) * 4,
                 initialZ_gltf = (rnd 1 - 0.5) * 4,
                 speed_gltf = 1.0 + rnd 2 * 0.5,
                 type_gltf =
                   js_index COMPONENT_TYPES_gltf
                     (\<lfloor>rnd 3 * (real (length COMPONENT_TYPES_gltf) - 2)\<rfloor> + 2),
                 rotationSpeed_gltf =
                   \<lparr>x_of = (rnd 4 - 0.5) * 0.02,
                    y_of = (rnd 5 - 0.5) * 0.02,
                    z_of = (rnd 6 - 0.5) * 0.02\<rparr>,
                 scaleVar = 0.8 + rnd 7 * 0.4\<rparr>],
             nextId := nextId st + 1\<rparr>)"

text \<open>The per-frame callback of \<^verbatim>\<open>TakaScene\<close>, lines 32-38.\<close>

definition TakaScene_useFrame_gltf ::
  "(nat \<Rightarrow> real) \<Rightarrow> real \<Rightarrow> FlyingItem_gltf scene \<Rightarrow> FlyingItem_gltf scene" where
  "TakaScene_useFrame_gltf rnd elapsedTime st =
     (if elapsedTime - lastSpawnTime st > 1.2
      then (spawnItem_gltf rnd st)\<lparr>lastSpawnTime := elapsedTime\<rparr>
      else st)"

text \<open>
  The models rendered inside the component child (lines 171-178), in order; the last
  line of the JSX is the fallback for the tag \<^verbatim>\<open>'taka'\<close>, and \<open>fallback_rendered_gltf\<close>
  is its condition.
\<close>

definition fallback_rendered_gltf :: "string option \<Rightarrow> bool" where
  "fallback_rendered_gltf ty = (ty = Some ''taka'')"

definition component_models_gltf :: "string option \<Rightarrow> string list" where
  "component_models_gltf ty =
     (if ty = Some ''gpu'' then [''GLTF_GPU''] else [])
     @ (if ty = Some ''ram'' then [''GLTF_RAM''] else [])
     @ (if ty = Some ''cpu'' then [''GLTF_CPU''] else [])
     @ (if ty = Some ''motherboard'' then [''GLTF_Motherboard''] else [])
     @ (if fallback_rendered_gltf ty then [''GLTF_GPU''] else [])"

text \<open>
  The refs and state of this \<^verbatim>\<open>ItemAnimator\<close> (lines 89-91), and its tree once mounted
  (lines 163-180).
\<close>

record animator_gltf = animator +
  transformed :: bool

definition mounted_group_gltf :: Group where
  "mounted_group_gltf =
     \<lparr>position = \<lparr>x_of = 0, y_of = 0, z_of = 0\<rparr>,
      rotation = \<lparr>x_of = 0, y_of = 0, z_of = 0\<rparr>,
      children = [\<lparr>obj_scale = 1, visible = True\<rparr>, \<lparr>obj_scale = 1, visible = False\<rparr>]\<rparr>"

text \<open>
  The scale and visibility logic of lines 130-160, on the two children, at position \<open>x\<close>.
\<close>

definition scale_logic_gltf ::
  "FlyingItem_gltf \<Rightarrow> real \<Rightarrow> Object3D \<Rightarrow> Object3D \<Rightarrow> Object3D \<times> Object3D" where
  "scale_logic_gltf data x takaGroup compGroup =
     (if x < - 0.5 then
        (takaGroup\<lparr>visible := True, obj_scale := 1\<rparr>, compGroup\<lparr>visible := False\<rparr>)
      else if x > 0.5 then
        (let scaleUp = min 1 ((x - 0.5) * 2)
         in (takaGroup\<lparr>visible := False\<rparr>,
             compGroup\<lparr>visible := True, obj_scale := scaleUp * scaleVar data\<rparr>))
      else
        (let t = x + 0.5;
             takaScale = max 0 (1 - t * 2);
             takaGroup = takaGroup\<lparr>obj_scale := takaScale, visible := (takaScale > 0.01)\<rparr>
         in if x > 0 then
              (let compScale = min 1 (x * 2)
               in (takaGroup,
                   compGroup\<lparr>obj_scale := compScale * scaleVar data, visible := True\<rparr>))
            else (takaGroup, compGroup\<lparr>visible := False\<rparr>)))"

text \<open>
  The per-frame callback, lines 93-161. Line 124-125 read the two children without a
  guard: with fewer than two children the first assignment to \<^verbatim>\<open>.visible\<close> throws a
  \<^verbatim>\<open>TypeError\<close>, after the position, the rotation and \<^verbatim>\<open>transformed\<close> have been
  written; \<open>Inl\<close> carries the state at the throw.
\<close>

datatype error = TypeError

definition ItemAnimator_useFrame_gltf ::
  "FlyingItem_gltf \<Rightarrow> real \<Rightarrow> animator_gltf \<Rightarrow> (error \<times> animator_gltf) + animator_gltf" where
  "ItemAnimator_useFrame_gltf data elapsedTime st =
     (let start = (case startTime st of None \<Rightarrow> elapsedTime | Some s \<Rightarrow> s);
          st = st\<lparr>startTime := Some start\<rparr>
      in case groupRef st of
           None \<Rightarrow> Inr st
         | Some g \<Rightarrow>
             let timeAlive = elapsedTime - start;
                 x = - 10 + timeAlive * speed_gltf data;
                 g = g\<lparr>position :=
                         \<lparr>x_of = x,
                          y_of = initialY_gltf data
                                 + sin (timeAlive * 0.5 + real (item_id_gltf data)) * 0.3,
                          z_of = initialZ_gltf data
                                 + cos (timeAlive * 0.3 + real (item_id_gltf data)) * 0.3\<rparr>,
                       rotation :=
                         \<lparr>x_of = x_of (rotation g) + x_of (rotationSpeed_gltf data),
                          y_of = y_of (rotation g) + y_of (rotationSpeed_gltf data),
                          z_of = z_of (rotation g) + z_of (rotationSpeed_gltf data)\<rparr>\<rparr>;
                 st = (if x > 0 \<and> \<not> transformed st then st\<lparr>transformed := True\<rparr> else st)
             in (case children g of
                   takaGroup # compGroup # rest \<Rightarrow>
                     (let (takaGroup, compGroup) = scale_logic_gltf data x takaGroup compGroup
                      in Inr (st\<lparr>groupRef :=
                                Some (g\<lparr>children := takaGroup # compGroup # rest\<rparr>)\<rparr>))
                 | _ \<Rightarrow> Inl (TypeError, st\<lparr>groupRef := Some g\<rparr>)))"

section \<open>Observations and sample inputs\<close>

text \<open>The horizontal position written by the last tick, if the group is mounted.\<close>

definition position_x :: "animator \<Rightarrow> real option" where
  "position_x st = map_option (\<lambda>g. x_of (position g)) (groupRef st)"

text \<open>
  The ids of the active items form the block of the last \<open>min n 9\<close> ids handed out,
  oldest first, where \<open>n\<close> is the number of ids handed out so far.
\<close>

definition ids_inv :: "FlyingItem scene \<Rightarrow> bool" where
  "ids_inv st = (map item_id (items st) = [nextId st - min (nextId st) 9 ..< nextId st])"

text \<open>Random sources that always return 0, and always 1/2.\<close>

definition rnd_zero :: "nat \<Rightarrow> real" where
  "rnd_zero k = 0"

definition rnd_half :: "nat \<Rightarrow> real" where
  "rnd_half k = 1 / 2"

text \<open>An item of speed 1.5, an animator before its first tick, and a mounted one born at 0.\<close>

definition data0 :: FlyingItem where
  "data0 =
     \<lparr>item_id = 0, initialY = 0, initialZ = 0, speed = 1.5,
      targetComponent = Some ''gpu'',
      rotationSpeed = \<lparr>x_of = 0, y_of = 0, z_of = 0\<rparr>\<rparr>"

definition unmounted :: animator where
  "unmounted = \<lparr>groupRef = None, startTime = None\<rparr>"

definition mounted :: animator where
  "mounted = \<lparr>groupRef = Some mounted_group, startTime = Some 0\<rparr>"

text \<open>An animator whose first tick came at clock value 2 and that is still not mounted.\<close>

definition waiting :: animator where
  "waiting = \<lparr>groupRef = None, startTime = Some 2\<rparr>"

text \<open>An item of the GLTF scene with speed 1 and \<^verbatim>\<open>scaleVar\<close> 1.2.\<close>

definition data0_gltf :: FlyingItem_gltf where
  "data0_gltf =
     \<lparr>item_id_gltf = 0, initialY_gltf = 0, initialZ_gltf = 0, speed_gltf = 1,
      type_gltf = Some ''gpu'',
      rotationSpeed_gltf = \<lparr>x_of = 0, y_of = 0, z_of = 0\<rparr>,
      scaleVar = 1.2\<rparr>"

text \<open>
  What happens to one animator over time: the renderer attaches the group to the ref
  (\<open>Mount\<close>), or the frame callback runs at some clock value (\<open>Frame\<close>).
\<close>

datatype event = Mount Group | Frame real

fun run :: "FlyingItem \<Rightarrow> event list \<Rightarrow> animator \<Rightarrow> animator" where
  "run data [] st = st"
| "run data (Mount g # evs) st = run data evs (st\<lparr>groupRef := Some g\<rparr>)"
| "run data (Frame t # evs) st = run data evs (ItemAnimator_useFrame data t st)"

section \<open>The spawner: size and eviction order\<close>

lemma length_shift: "length (shift xs) = length xs - 1"
  by (cases xs) (simp_all add: shift_def)

lemma shift_tl: "shift xs = tl xs"
  by (cases xs) (simp_all add: shift_def)

lemma items_spawnItem:
  "\<exists>new. item_id new = nextId st \<and>
     items (spawnItem rnd st) =
       (if length (items st) > 8 then tl (items st) else items st) @ [new]"
  by (simp add: spawnItem_def Let_def shift_tl)

lemma nextId_spawnItem: "nextId (spawnItem rnd st) = nextId st + 1"
  by (simp add: spawnItem_def Let_def)

lemma lastSpawnTime_spawnItem: "lastSpawnTime (spawnItem rnd st) = lastSpawnTime st"
  by (simp add: spawnItem_def Let_def)

lemma length_spawnItem:
  "length (items (spawnItem rnd st)) =
     (if length (items st) > 8 then length (items st) else length (items st) + 1)"
  by (cases "items st") (simp_all add: spawnItem_def Let_def length_shift)

lemma ids_inv_initial: "ids_inv initial_scene"
  by (simp add: ids_inv_def initial_scene_def)

lemma tl_upt_Suc: "tl [m..<n] = [Suc m..<n]"
  by (cases "m < n") (simp_all add: upt_conv_Cons)

lemma ids_inv_spawnItem:
  assumes "ids_inv st"
  shows "ids_inv (spawnItem rnd st)"
proof -
  have len: "length (items st) = min (nextId st) 9"
    using arg_cong [where f = length, OF assms [unfolded ids_inv_def]] by simp
  obtain new where new: "item_id new = nextId st"
    "items (spawnItem rnd st) =
       (if length (items st) > 8 then tl (items st) else items st) @ [new]"
    using items_spawnItem by blast
  show ?thesis
  proof (cases "nextId st > 8")
    case True
    then have "map item_id (tl (items st)) = [Suc (nextId st - 9)..<nextId st]"
      using assms by (simp add: ids_inv_def map_tl tl_upt_Suc)
    moreover have "Suc (nextId st - 9) = nextId st - 8"
      using True by arith
    ultimately show ?thesis
      using True len new by (simp add: ids_inv_def nextId_spawnItem)
  next
    case False
    with len new assms show ?thesis
      by (simp add: ids_inv_def nextId_spawnItem)
  qed
qed

lemma nextId_spawn_all: "nextId (spawn_all rnds st) = nextId st + length rnds"
  by (induction rnds arbitrary: st) (simp_all add: nextId_spawnItem)

lemma ids_inv_spawn_all: "ids_inv st \<Longrightarrow> ids_inv (spawn_all rnds st)"
  by (induction rnds arbitrary: st) (simp_all add: ids_inv_spawnItem)

lemma ids_spawn_all_initial:
  "map item_id (items (spawn_all rnds initial_scene)) =
     [length rnds - min (length rnds) 9 ..< length rnds]"
  using ids_inv_spawn_all [OF ids_inv_initial, of rnds]
  by (simp add: ids_inv_def nextId_spawn_all initial_scene_def)

lemma length_spawn_all_initial:
  "length (items (spawn_all rnds initial_scene)) = min (length rnds) 9"
  using arg_cong [where f = length, OF ids_spawn_all_initial [of rnds]] by simp

text \<open>
  C1, as stated, fails: the test of line 249 is \<^verbatim>\<open>active.length > 8\<close> and runs before the
  append, so a collection of exactly 8 items is not trimmed and grows to 9, where
  \<open>min (8 + 1) 8 = 8\<close> is claimed.
\<close>

theorem spawnItem_reaches_nine:
  "length (items (spawn_all (replicate 8 rnd_zero) initial_scene)) = 8 \<and>
   length (items (spawnItem rnd_zero (spawn_all (replicate 8 rnd_zero) initial_scene))) = 9 \<and>
   length (items (spawnItem rnd_zero (spawn_all (replicate 8 rnd_zero) initial_scene)))
     \<noteq> min (length (items (spawn_all (replicate 8 rnd_zero) initial_scene)) + 1) 8"
  by (simp add: numeral_eq_Suc length_spawnItem initial_scene_def)

text \<open>
  C1, amended: for every spawn on a collection of at most 9 items, the size after the
  spawn update is \<open>min (previous_size + 1) 9\<close> and does not exceed 9; the single oldest
  item is evicted first exactly when the collection already holds more than 8 items, and
  the items kept stay in order before the new one.
\<close>

theorem spawnItem_size:
  "length (items st) \<le> 9 \<Longrightarrow>
     length (items (spawnItem rnd st)) = min (length (items st) + 1) 9 \<and>
     length (items (spawnItem rnd st)) \<le> 9 \<and>
     butlast (items (spawnItem rnd st)) =
       (if length (items st) > 8 then tl (items st) else items st)"
  using items_spawnItem [of st rnd] by (auto simp add: length_spawnItem)

theorem spawnItem_size_witness:
  "length (items (spawn_all (replicate 9 rnd_zero) initial_scene)) \<le> 9 \<and>
   length (items (spawnItem rnd_zero (spawn_all (replicate 9 rnd_zero) initial_scene))) = 9"
  using spawnItem_size [of "spawn_all (replicate 9 rnd_zero) initial_scene" rnd_zero]
  by (simp add: length_spawn_all_initial)

text \<open>
  C2, as stated, fails for the same test: after the 9th spawn (ids 0 to 8) the item
  with id 0 is still in the collection.
\<close>

theorem id_zero_kept_after_nine_spawns:
  "0 \<in> set (map item_id (items (spawn_all (replicate 9 rnd_zero) initial_scene)))"
  by (simp add: ids_spawn_all_initial)

text \<open>
  C2, amended: eviction is first in, first out; for spawns producing ids 0 to 9 in order
  from the empty collection, after the 10th spawn the collection holds ids 1 to 9 in
  order and no longer contains id 0.
\<close>

theorem id_zero_evicted_by_tenth_spawn:
  "length rnds = 10 \<Longrightarrow>
     map item_id (items (spawn_all rnds initial_scene)) = [1, 2, 3, 4, 5, 6, 7, 8, 9] \<and>
     0 \<notin> set (map item_id (items (spawn_all rnds initial_scene)))"
  by (simp add: ids_spawn_all_initial upt_rec)

theorem id_zero_evicted_by_tenth_spawn_witness:
  "length (replicate 10 rnd_zero) = 10 \<and>
   0 \<notin> set (map item_id (items (spawn_all (replicate 10 rnd_zero) initial_scene)))"
  using id_zero_evicted_by_tenth_spawn [of "replicate 10 rnd_zero"] by simp

section \<open>The animator: blend factor and scales\<close>

lemma blend_cases:
  "blend x = (if x < - 1 / 2 then 0 else if x > 1 / 2 then 1 else x + 1 / 2)"
  by (simp add: blend_def beamCenter_def transitionWidth_def)

lemma blend_range: "0 \<le> blend x \<and> blend x \<le> 1"
  by (simp add: blend_cases)

lemma blend_mono: "x \<le> x' \<Longrightarrow> blend x \<le> blend x'"
  by (simp add: blend_cases)

lemma useFrame_unmounted:
  "groupRef st = None \<Longrightarrow>
   ItemAnimator_useFrame data t st =
     st\<lparr>startTime := Some (case startTime st of None \<Rightarrow> t | Some s \<Rightarrow> s)\<rparr>"
  by (simp add: ItemAnimator_useFrame_def Let_def)

lemma startTime_useFrame:
  "startTime (ItemAnimator_useFrame data t st) =
     Some (case startTime st of None \<Rightarrow> t | Some s \<Rightarrow> s)"
  by (simp add: ItemAnimator_useFrame_def Let_def split: option.splits list.splits)

lemma position_x_useFrame:
  "groupRef st = Some g \<Longrightarrow>
   position_x (ItemAnimator_useFrame data t st) =
     Some (- 9 + (t - (case startTime st of None \<Rightarrow> t | Some s \<Rightarrow> s)) * speed data)"
  by (simp add: ItemAnimator_useFrame_def position_x_def Let_def
      split: option.splits list.splits)

lemma scales_useFrame:
  assumes "groupRef st = Some g" and "children g = takaGroup # compGroup # rest"
    and "position_x (ItemAnimator_useFrame data t st) = Some x"
  shows "takaGroup_scale (ItemAnimator_useFrame data t st) =
           Some (if 1 - blend x > 0 then 1 - blend x else 0.001)"
    and "compGroup_scale (ItemAnimator_useFrame data t st) =
           Some (if blend x > 0 then blend x else 0.001)"
  using assms
  by (simp_all add: ItemAnimator_useFrame_def position_x_def takaGroup_scale_def
      compGroup_scale_def js_index_def Let_def split: option.splits)

lemma mounted_parts:
  "groupRef mounted = Some mounted_group"
  "children mounted_group =
     \<lparr>obj_scale = 1, visible = True\<rparr> # \<lparr>obj_scale = 0.001, visible = True\<rparr> # []"
  by (simp_all add: mounted_def mounted_group_def)

lemma unmounted_parts: "groupRef unmounted = None" "startTime unmounted = None"
  by (simp_all add: unmounted_def)

lemma waiting_parts: "groupRef waiting = None" "startTime waiting = Some 2"
  by (simp_all add: waiting_def)

lemma unmounted_born: "unmounted\<lparr>startTime := Some 2\<rparr> = waiting"
  by (simp add: unmounted_def waiting_def)

lemma data0_speed: "speed data0 = 1.5"
  by (simp add: data0_def)

lemma startTime_run:
  "startTime st = Some b \<Longrightarrow> startTime (run data evs st) = Some b"
proof (induction evs arbitrary: st)
  case Nil
  then show ?case by simp
next
  case (Cons ev evs)
  then show ?case
    by (cases ev) (simp_all add: startTime_useFrame)
qed

lemma position_x_mounted:
  "position_x (ItemAnimator_useFrame data0 t mounted) = Some (- 9 + t * 1.5)"
  using position_x_useFrame [OF mounted_parts(1), of data0 t]
  by (simp add: mounted_def data0_def)

text \<open>
  C3: the blend factor lies in \<open>[0, 1]\<close> and does not decrease when the horizontal
  position increases; for an item of non-negative speed and a fixed birth time \<open>s\<close>, it
  does not decrease from a tick at clock value \<open>t\<close> to a tick at a later value \<open>t'\<close>.
\<close>

theorem blend_bounded_monotone:
  "0 \<le> blend x \<and> blend x \<le> 1 \<and>
   (x \<le> x' \<longrightarrow> blend x \<le> blend x') \<and>
   (0 \<le> speed data \<and> t \<le> t' \<longrightarrow>
      blend (- 9 + (t - s) * speed data) \<le> blend (- 9 + (t' - s) * speed data))"
proof -
  have "- 9 + (t - s) * speed data \<le> - 9 + (t' - s) * speed data"
    if "0 \<le> speed data" and "t \<le> t'"
    using that by (simp add: mult_right_mono)
  then show ?thesis
    using blend_range [of x] blend_mono by blast
qed

theorem blend_bounded_monotone_witness:
  "(- 1 :: real) \<le> 0 \<and> blend (- 1) \<le> blend 0 \<and>
   0 \<le> speed data0 \<and> (5 :: real) \<le> 6 \<and>
   blend (- 9 + (5 - 0) * speed data0) \<le> blend (- 9 + (6 - 0) * speed data0) \<and>
   blend (- 9 + (6 - 0) * speed data0) = 1 / 2"
  using blend_bounded_monotone [of "- 1" 0 data0 5 6 0]
  by (simp add: blend_cases data0_def)

text \<open>
  C4: on a tick of a mounted animator with both children, at a horizontal position
  strictly left of the transformation zone the blend factor is 0 and the component
  child's scale is the clamped minimum 0.001; strictly right of the zone the blend
  factor is 1 and the value-token child's scale is the clamped minimum 0.001.
\<close>

theorem scales_outside_zone:
  assumes "groupRef st = Some g" and "children g = takaGroup # compGroup # rest"
    and "position_x (ItemAnimator_useFrame data t st) = Some x"
  shows "(x < beamCenter - transitionWidth / 2 \<longrightarrow>
            blend x = 0 \<and> compGroup_scale (ItemAnimator_useFrame data t st) = Some 0.001) \<and>
         (x > beamCenter + transitionWidth / 2 \<longrightarrow>
            blend x = 1 \<and> takaGroup_scale (ItemAnimator_useFrame data t st) = Some 0.001)"
  using scales_useFrame [OF assms]
  by (simp add: blend_cases beamCenter_def transitionWidth_def)

theorem scales_outside_zone_witness:
  "position_x (ItemAnimator_useFrame data0 0 mounted) = Some (- 9) \<and>
   - 9 < beamCenter - transitionWidth / 2 \<and>
   compGroup_scale (ItemAnimator_useFrame data0 0 mounted) = Some 0.001 \<and>
   position_x (ItemAnimator_useFrame data0 10 mounted) = Some 6 \<and>
   6 > beamCenter + transitionWidth / 2 \<and>
   takaGroup_scale (ItemAnimator_useFrame data0 10 mounted) = Some 0.001"
proof -
  have p0: "position_x (ItemAnimator_useFrame data0 0 mounted) = Some (- 9)"
    and p10: "position_x (ItemAnimator_useFrame data0 10 mounted) = Some 6"
    by (simp_all add: position_x_mounted)
  show ?thesis
    using scales_outside_zone [OF mounted_parts p0] scales_outside_zone [OF mounted_parts p10]
      p0 p10
    by (simp add: beamCenter_def transitionWidth_def)
qed

text \<open>
  C5, as stated, fails. In the version with a blend factor there is no scale jitter, and
  the component child's scale is \<open>blend\<close> clamped to 0.001: left of the zone it is 0.001,
  not \<open>blend * scaleJitter = 0\<close>. In the GLTF version, the only one with a \<^verbatim>\<open>scaleVar\<close>,
  the value-token child's scale reaches exactly 0 (here at \<open>x = 1/4\<close>), with no epsilon.
\<close>

theorem component_scale_not_blend_times_jitter:
  "position_x (ItemAnimator_useFrame data0 0 mounted) = Some (- 9) \<and>
   blend (- 9) = 0 \<and>
   compGroup_scale (ItemAnimator_useFrame data0 0 mounted) = Some 0.001 \<and>
   compGroup_scale (ItemAnimator_useFrame data0 0 mounted) \<noteq> Some (blend (- 9) * 1) \<and>
   scale_logic_gltf data0_gltf (1 / 4)
       \<lparr>obj_scale = 1, visible = True\<rparr> \<lparr>obj_scale = 1, visible = False\<rparr> =
     (\<lparr>obj_scale = 0, visible = False\<rparr>, \<lparr>obj_scale = 0.6, visible = True\<rparr>)"
proof -
  have "scale_logic_gltf data0_gltf (1 / 4)
       \<lparr>obj_scale = 1, visible = True\<rparr> \<lparr>obj_scale = 1, visible = False\<rparr> =
     (\<lparr>obj_scale = 0, visible = False\<rparr>, \<lparr>obj_scale = 0.6, visible = True\<rparr>)"
    by (simp add: scale_logic_gltf_def Let_def data0_gltf_def)
  then show ?thesis
    using scales_useFrame(2) [OF mounted_parts, of data0 0 "- 9"]
    by (simp add: position_x_mounted blend_cases)
qed

text \<open>
  C5, amended: on every tick of the animator with a blend factor, with the group
  mounted and both children present, the value-token child's scale is \<open>1 - blend\<close> when
  that is positive and 0.001 otherwise, and the component child's scale is \<open>blend\<close> when
  that is positive and 0.001 otherwise; no scale jitter is applied.
\<close>

theorem scales_from_blend:
  assumes "groupRef st = Some g" and "children g = takaGroup # compGroup # rest"
    and "position_x (ItemAnimator_useFrame data t st) = Some x"
  shows "takaGroup_scale (ItemAnimator_useFrame data t st) =
           Some (if 1 - blend x > 0 then 1 - blend x else 0.001) \<and>
         compGroup_scale (ItemAnimator_useFrame data t st) =
           Some (if blend x > 0 then blend x else 0.001)"
  using scales_useFrame [OF assms] by simp

theorem scales_from_blend_witness:
  "position_x (ItemAnimator_useFrame data0 6 mounted) = Some 0 \<and>
   takaGroup_scale (ItemAnimator_useFrame data0 6 mounted) = Some (1 / 2) \<and>
   compGroup_scale (ItemAnimator_useFrame data0 6 mounted) = Some (1 / 2) \<and>
   position_x (ItemAnimator_useFrame data0 8 mounted) = Some 3 \<and>
   takaGroup_scale (ItemAnimator_useFrame data0 8 mounted) = Some 0.001 \<and>
   compGroup_scale (ItemAnimator_useFrame data0 8 mounted) = Some 1"
proof -
  have p6: "position_x (ItemAnimator_useFrame data0 6 mounted) = Some 0"
    and p8: "position_x (ItemAnimator_useFrame data0 8 mounted) = Some 3"
    by (simp_all add: position_x_mounted)
  show ?thesis
    using scales_from_blend [OF mounted_parts p6] scales_from_blend [OF mounted_parts p8] p6 p8
    by (simp add: blend_cases)
qed

text \<open>
  In the GLTF version the component child's scale, written only right of 0, is a ramp
  capped at 1 and multiplied by \<^verbatim>\<open>scaleVar\<close>.
\<close>

lemma scale_logic_gltf_comp:
  "0 < x \<Longrightarrow>
   obj_scale (snd (scale_logic_gltf data x takaGroup compGroup)) =
     min 1 (if x > 0.5 then (x - 0.5) * 2 else x * 2) * scaleVar data"
  by (simp add: scale_logic_gltf_def Let_def)

section \<open>The spawner: one spawn per frame\<close>

text \<open>
  C6: one frame tick hands out at most one id and adds at most one item, however far
  the clock is past the last spawn; when the interval has elapsed exactly one item (with
  the next id) is appended and the spawn time becomes the clock value, otherwise the
  scene is unchanged.
\<close>

theorem TakaScene_useFrame_single_spawn:
  "nextId (TakaScene_useFrame rnd t st) \<le> nextId st + 1 \<and>
   length (items (TakaScene_useFrame rnd t st)) \<le> length (items st) + 1 \<and>
   (t - lastSpawnTime st > 1.8 \<longrightarrow>
      nextId (TakaScene_useFrame rnd t st) = nextId st + 1 \<and>
      lastSpawnTime (TakaScene_useFrame rnd t st) = t \<and>
      (\<exists>new. item_id new = nextId st \<and>
         items (TakaScene_useFrame rnd t st) =
           (if length (items st) > 8 then tl (items st) else items st) @ [new])) \<and>
   (\<not> t - lastSpawnTime st > 1.8 \<longrightarrow> TakaScene_useFrame rnd t st = st)"
  using items_spawnItem [of st rnd]
  by (simp add: TakaScene_useFrame_def nextId_spawnItem length_spawnItem)

theorem TakaScene_useFrame_single_spawn_witness:
  "(100 :: real) - lastSpawnTime (initial_scene :: FlyingItem scene) > 1.8 \<and>
   nextId (TakaScene_useFrame rnd_zero 100 initial_scene) = 1 \<and>
   length (items (TakaScene_useFrame rnd_zero 100 initial_scene)) = 1 \<and>
   lastSpawnTime (TakaScene_useFrame rnd_zero 100 initial_scene) = 100 \<and>
   \<not> (1 :: real) - lastSpawnTime (initial_scene :: FlyingItem scene) > 1.8 \<and>
   TakaScene_useFrame rnd_zero 1 initial_scene = initial_scene"
  using TakaScene_useFrame_single_spawn [of rnd_zero 100 initial_scene]
    TakaScene_useFrame_single_spawn [of rnd_zero 1 initial_scene]
  by (auto simp add: initial_scene_def)

section \<open>The animator: position, birth time and the unmounted handle\<close>

text \<open>
  C7: an item of speed 1.5, started at -9, with the zone of half-width 0.5 centred at 0:
  on a mounted tick with \<open>timeAlive = 6\<close> its horizontal position is exactly 0, the zone
  centre, and the blend factor there is exactly 0.5.
\<close>

theorem zone_centre_scenario:
  assumes "speed data = 1.5" and "groupRef st = Some g" and "startTime st = Some s"
    and "t - s = 6"
  shows "position_x (ItemAnimator_useFrame data t st) = Some 0 \<and>
         beamCenter = 0 \<and> transitionWidth / 2 = 0.5 \<and> blend 0 = 0.5"
  using position_x_useFrame [OF assms(2), of data t] assms(1,3,4)
  by (simp add: blend_cases beamCenter_def transitionWidth_def)

theorem zone_centre_scenario_witness:
  "speed data0 = 1.5 \<and> groupRef mounted = Some mounted_group \<and> startTime mounted = Some 0 \<and>
   (6 :: real) - 0 = 6 \<and>
   position_x (ItemAnimator_useFrame data0 6 mounted) = Some 0 \<and> blend 0 = 0.5"
proof -
  have a: "speed data0 = 1.5" and b: "groupRef mounted = Some mounted_group"
    and c: "startTime mounted = Some 0" and d: "(6 :: real) - 0 = 6"
    by (simp_all add: data0_def mounted_def)
  show ?thesis
    using zone_centre_scenario [OF a b c d] a b c by simp
qed

text \<open>
  C8, as stated, fails on the first tick: the birth time is written before the guard
  on the render handle, so a tick on an unmounted animator that has no birth time yet
  changes its state.
\<close>

theorem unmounted_first_tick_changes_state:
  "groupRef unmounted = None \<and>
   ItemAnimator_useFrame data0 2 unmounted \<noteq> unmounted \<and>
   startTime unmounted = None \<and>
   startTime (ItemAnimator_useFrame data0 2 unmounted) = Some 2"
  by (simp add: ItemAnimator_useFrame_def unmounted_def Let_def)

text \<open>
  C8, amended: when the tick fires while the render handle is missing, no error is
  raised, the handle stays missing and no transform is written; the only state that can
  change is the birth time, which is set to the clock value if it was not set yet (with a
  birth time already set the tick changes nothing). Processing resumes on the next tick
  once the group is mounted: the position is then computed from the birth time.
\<close>

theorem unmounted_tick:
  assumes "groupRef st = None"
  shows "groupRef (ItemAnimator_useFrame data t st) = None \<and>
         (startTime st = None \<longrightarrow>
            ItemAnimator_useFrame data t st = st\<lparr>startTime := Some t\<rparr>) \<and>
         (startTime st \<noteq> None \<longrightarrow> ItemAnimator_useFrame data t st = st) \<and>
         position_x (ItemAnimator_useFrame data t'
             ((ItemAnimator_useFrame data t st)\<lparr>groupRef := Some g\<rparr>)) =
           Some (- 9 + (t' - (case startTime st of None \<Rightarrow> t | Some s \<Rightarrow> s)) * speed data)"
proof -
  have resume: "position_x (ItemAnimator_useFrame data t'
             ((ItemAnimator_useFrame data t st)\<lparr>groupRef := Some g\<rparr>)) =
           Some (- 9 + (t' - (case startTime st of None \<Rightarrow> t | Some s \<Rightarrow> s)) * speed data)"
    using position_x_useFrame
      [of "(ItemAnimator_useFrame data t st)\<lparr>groupRef := Some g\<rparr>" g data t']
    by (simp add: startTime_useFrame)
  have handle: "groupRef (ItemAnimator_useFrame data t st) = None"
    using assms by (simp add: useFrame_unmounted)
  have first: "ItemAnimator_useFrame data t st = st\<lparr>startTime := Some t\<rparr>"
    if "startTime st = None"
    using assms that by (simp add: useFrame_unmounted)
  have later: "ItemAnimator_useFrame data t st = st" if "startTime st \<noteq> None"
    using assms that by (auto simp add: useFrame_unmounted)
  show ?thesis
    using resume handle first later by blast
qed

theorem unmounted_tick_witness:
  "groupRef unmounted = None \<and> startTime unmounted = None \<and>
   ItemAnimator_useFrame data0 2 unmounted = waiting \<and>
   groupRef waiting = None \<and> startTime waiting \<noteq> None \<and>
   ItemAnimator_useFrame data0 3 waiting = waiting \<and>
   position_x (ItemAnimator_useFrame data0 8
      ((ItemAnimator_useFrame data0 3 waiting)\<lparr>groupRef := Some mounted_group\<rparr>)) = Some 0"
proof -
  note a = unmounted_tick [OF unmounted_parts(1), of data0 2 8 mounted_group]
  note b = unmounted_tick [OF waiting_parts(1), of data0 3 8 mounted_group]
  have first: "ItemAnimator_useFrame data0 2 unmounted = waiting"
    using a [THEN conjunct2, THEN conjunct1] by (simp add: unmounted_parts unmounted_born)
  have later: "ItemAnimator_useFrame data0 3 waiting = waiting"
    using b [THEN conjunct2, THEN conjunct2, THEN conjunct1] by (simp add: waiting_parts)
  have resume: "position_x (ItemAnimator_useFrame data0 8
      ((ItemAnimator_useFrame data0 3 waiting)\<lparr>groupRef := Some mounted_group\<rparr>)) = Some 0"
    using b [THEN conjunct2, THEN conjunct2, THEN conjunct2]
    by (simp add: waiting_parts data0_speed)
  show ?thesis
    using first later resume unmounted_parts waiting_parts by simp
qed

text \<open>
  C9: the first tick an animator observes fixes its birth time at the clock value,
  whether or not the render handle is mounted (the assignment comes before the guard);
  no later mount or tick changes it; so after a first tick that fired unmounted at \<open>t\<close>,
  a tick at \<open>t'\<close> once mounted places the item by \<open>timeAlive = t' - t\<close>.
\<close>

theorem startTime_captured_once:
  assumes "startTime st = None"
  shows "startTime (ItemAnimator_useFrame data t st) = Some t \<and>
         startTime (run data evs (ItemAnimator_useFrame data t st)) = Some t \<and>
         (groupRef st = None \<longrightarrow>
            ItemAnimator_useFrame data t st = st\<lparr>startTime := Some t\<rparr> \<and>
            position_x (ItemAnimator_useFrame data t'
                ((ItemAnimator_useFrame data t st)\<lparr>groupRef := Some g\<rparr>)) =
              Some (- 9 + (t' - t) * speed data))"
proof -
  have born: "startTime (ItemAnimator_useFrame data t st) = Some t"
    using assms by (simp add: startTime_useFrame)
  have alive: "position_x (ItemAnimator_useFrame data t'
             ((ItemAnimator_useFrame data t st)\<lparr>groupRef := Some g\<rparr>)) =
           Some (- 9 + (t' - t) * speed data)"
    using position_x_useFrame
      [of "(ItemAnimator_useFrame data t st)\<lparr>groupRef := Some g\<rparr>" g data t'] born
    by simp
  have guard: "ItemAnimator_useFrame data t st = st\<lparr>startTime := Some t\<rparr>"
    if "groupRef st = None"
    using assms that by (simp add: useFrame_unmounted)
  show ?thesis
    using born startTime_run [OF born] alive guard by blast
qed

theorem startTime_captured_once_witness:
  "startTime unmounted = None \<and> groupRef unmounted = None \<and>
   startTime (ItemAnimator_useFrame data0 2 unmounted) = Some 2 \<and>
   startTime (run data0 [Frame 3, Mount mounted_group, Frame 4, Frame 8]
      (ItemAnimator_useFrame data0 2 unmounted)) = Some 2 \<and>
   position_x (ItemAnimator_useFrame data0 8
      ((ItemAnimator_useFrame data0 2 unmounted)\<lparr>groupRef := Some mounted_group\<rparr>)) = Some 0"
proof -
  note n = startTime_captured_once [OF unmounted_parts(2), of data0 2
      "[Frame 3, Mount mounted_group, Frame 4, Frame 8]" 8 mounted_group]
  have alive: "position_x (ItemAnimator_useFrame data0 8
      ((ItemAnimator_useFrame data0 2 unmounted)\<lparr>groupRef := Some mounted_group\<rparr>)) = Some 0"
    using n [THEN conjunct2, THEN conjunct2, THEN mp, OF unmounted_parts(1), THEN conjunct2]
    by (simp add: data0_speed)
  show ?thesis
    using unmounted_parts n [THEN conjunct1] n [THEN conjunct2, THEN conjunct1] alive
    by blast
qed

section \<open>The GLTF spawner: target variants\<close>

lemma floor_times_four:
  assumes "0 \<le> (r::real)" and "r < 1"
  shows "\<lfloor>r * 4\<rfloor> \<in> {0, 1, 2, 3}"
proof -
  have "0 \<le> \<lfloor>r * 4\<rfloor>" and "\<lfloor>r * 4\<rfloor> < 4"
    using assms by (simp_all add: floor_less_iff)
  then have "\<lfloor>r * 4\<rfloor> = 0 \<or> \<lfloor>r * 4\<rfloor> = 1 \<or> \<lfloor>r * 4\<rfloor> = 2 \<or> \<lfloor>r * 4\<rfloor> = 3"
    by linarith
  then show ?thesis by simp
qed

lemma items_spawnItem_gltf:
  "\<exists>new. item_id_gltf new = nextId st \<and>
     type_gltf new = js_index COMPONENT_TYPES_gltf (\<lfloor>rnd 3 * 4\<rfloor> + 2) \<and>
     items (spawnItem_gltf rnd st) =
       (if length (items st) > 12 then tl (items st) else items st) @ [new]"
  by (simp add: spawnItem_gltf_def Let_def shift_tl COMPONENT_TYPES_gltf_def)

lemma js_index_gltf:
  assumes "0 \<le> (r::real)" and "r < 1"
  shows "js_index COMPONENT_TYPES_gltf (\<lfloor>r * 4\<rfloor> + 2)
           \<in> {Some ''gpu'', Some ''ram'', Some ''cpu'', Some ''motherboard''}"
  using floor_times_four [OF assms]
  by (auto simp add: COMPONENT_TYPES_gltf_def js_index_def)

text \<open>
  C10: with \<^verbatim>\<open>Math.random()\<close> in \<open>[0, 1)\<close>, the item the GLTF spawner creates has a
  hardware tag (gpu, ram, cpu or motherboard), never the value-token tag, so the fallback
  line of the render tree is not taken for it and exactly one model is rendered; if no
  item of the collection takes the fallback before a spawn, none does after it.
\<close>

theorem spawned_type_is_hardware:
  assumes "0 \<le> rnd 3" and "rnd 3 < 1"
  shows "type_gltf (last (items (spawnItem_gltf rnd st)))
           \<in> {Some ''gpu'', Some ''ram'', Some ''cpu'', Some ''motherboard''} \<and>
         type_gltf (last (items (spawnItem_gltf rnd st))) \<noteq> Some ''taka'' \<and>
         \<not> fallback_rendered_gltf (type_gltf (last (items (spawnItem_gltf rnd st)))) \<and>
         length (component_models_gltf (type_gltf (last (items (spawnItem_gltf rnd st))))) = 1 \<and>
         ((\<forall>item \<in> set (items st). \<not> fallback_rendered_gltf (type_gltf item)) \<longrightarrow>
          (\<forall>item \<in> set (items (spawnItem_gltf rnd st)).
             \<not> fallback_rendered_gltf (type_gltf item)))"
proof -
  obtain new where new: "type_gltf new = js_index COMPONENT_TYPES_gltf (\<lfloor>rnd 3 * 4\<rfloor> + 2)"
    "items (spawnItem_gltf rnd st) =
       (if length (items st) > 12 then tl (items st) else items st) @ [new]"
    using items_spawnItem_gltf by blast
  have hw: "type_gltf new \<in> {Some ''gpu'', Some ''ram'', Some ''cpu'', Some ''motherboard''}"
    using js_index_gltf [OF assms] new(1) by simp
  then have nt: "type_gltf new \<noteq> Some ''taka''"
    by auto
  have one: "length (component_models_gltf (type_gltf new)) = 1"
    using hw by (auto simp add: component_models_gltf_def fallback_rendered_gltf_def)
  have sub: "set (tl (items st)) \<subseteq> set (items st)"
    by (cases "items st") auto
  show ?thesis
    using hw nt one new(2) sub by (auto simp add: fallback_rendered_gltf_def)
qed

theorem spawned_type_is_hardware_witness:
  "0 \<le> rnd_half 3 \<and> rnd_half 3 < 1 \<and>
   type_gltf (last (items (spawnItem_gltf rnd_half initial_scene))) = Some ''cpu'' \<and>
   \<not> fallback_rendered_gltf (type_gltf (last (items (spawnItem_gltf rnd_half initial_scene)))) \<and>
   list_all (\<lambda>item. \<not> fallback_rendered_gltf (type_gltf item))
     (items (spawnItem_gltf rnd_half initial_scene)) \<and>
   list_all (\<lambda>item. \<not> fallback_rendered_gltf (type_gltf item))
     (items (spawnItem_gltf rnd_zero (spawnItem_gltf rnd_half initial_scene)))"
proof -
  have a: "0 \<le> rnd_half 3" "rnd_half 3 < 1" and b: "0 \<le> rnd_zero 3" "rnd_zero 3 < 1"
    by (simp_all add: rnd_half_def rnd_zero_def)
  note first = spawned_type_is_hardware [of rnd_half initial_scene, OF a]
  note second =
    spawned_type_is_hardware [of rnd_zero "spawnItem_gltf rnd_half initial_scene", OF b]
  have c: "type_gltf (last (items (spawnItem_gltf rnd_half initial_scene))) = Some ''cpu''"
    by (simp add: spawnItem_gltf_def Let_def rnd_half_def COMPONENT_TYPES_gltf_def
        js_index_def initial_scene_def)
  have d: "\<forall>item \<in> set (items (spawnItem_gltf rnd_half initial_scene)).
      \<not> fallback_rendered_gltf (type_gltf item)"
    using first by (simp add: initial_scene_def)
  have e: "\<forall>item \<in> set (items (spawnItem_gltf rnd_zero (spawnItem_gltf rnd_half initial_scene))).
      \<not> fallback_rendered_gltf (type_gltf item)"
    using second d by blast
  show ?thesis
    using a c d e first by (simp add: list_all_iff)
qed

end
